theory Spec2Isabelle
  imports Main "HOL-Library.Word" "HOL-Library.Sublist"
begin

section \<open>Errors\<close>

text \<open>
  Go error values. \<open>ErrorNew m\<close> is the value of \<open>errors.New(m)\<close>, of
  \<open>errors.Errorf\<close> and of \<open>fmt.Errorf\<close> once the message is formatted;
  \<open>Wrap e m\<close> is \<open>errors.Wrap(e, m)\<close>. The sentinels are compared by identity in
  the source (\<open>err == sql.ErrNoRows\<close>), so each is a constructor of its own: an error
  built elsewhere with the same message is a different value.
\<close>

datatype error =
    ErrorNew string
  | Wrap error string
  | ErrNoRows
  | ErrTxDone
  | ErrNoSuitableEEFound

text \<open>The \<open>Error()\<close> method: the message of an error value.\<close>

fun Error :: "error \<Rightarrow> string" where
  "Error (ErrorNew m) = m"
| "Error (Wrap e m) = m @ '': '' @ Error e"
| "Error ErrNoRows = ''sql: no rows in result set''"
| "Error ErrTxDone = ''sql: transaction has already been committed or rolled back''"
| "Error ErrNoSuitableEEFound = ''no suitable key found in database''"

section \<open>The end-entity store (package database)\<close>

text \<open>
  A row of the table \<open>endentities\<close>, with the columns the statements of the source
  name: \<open>x5u\<close> is nullable (the source scans it into a \<open>sql.NullString\<close>),
  \<open>created_at\<close> is filled by the store when the row is inserted. Time is a count of
  nanoseconds, as \<open>time.Duration\<close> is.
\<close>

record endentity =
  x5u :: "string option"
  label :: string
  signer_id :: string
  hsm_handle :: "64 word"
  is_current :: bool
  created_at :: int

text \<open>
  A \<open>Transaction\<close> wraps a \<open>sql.Tx\<close> and the id of its lock record (the field
  \<open>ID\<close>, here \<open>tx_ID\<close>). The model of
  the \<open>sql.Tx\<close> is the table as it was when the transaction began, the table as the
  transaction sees it, and whether the transaction is over (committed or rolled back):
  every statement on a transaction that is over fails with \<open>sql.ErrTxDone\<close>.
\<close>

record Transaction =
  snapshot :: "endentity list"
  table :: "endentity list"
  finished :: bool
  tx_ID :: nat

definition Rollback :: "Transaction \<Rightarrow> Transaction" where
  "Rollback tx = (if finished tx then tx else tx\<lparr>table := snapshot tx, finished := True\<rparr>)"

text \<open>
  What can make a statement fail lies outside the program (the connection, the server):
  \<open>fault\<close> is the driver's error message when this statement fails, \<open>None\<close> when
  the store executes it.
\<close>

definition driver_check :: "string option \<Rightarrow> Transaction \<Rightarrow> error option" where
  "driver_check fault tx =
     (if finished tx then Some ErrTxDone
      else case fault of Some m \<Rightarrow> Some (ErrorNew m) | None \<Rightarrow> None)"

text \<open>
  \<open>INSERT INTO endentities(x5u, label, signer_id, hsm_handle, is_current)
  VALUES ($1, $2, $3, $4, $5)\<close>; \<open>clock\<close> is the store's clock, the value of the
  column \<open>created_at\<close>.
\<close>

definition Exec_insert ::
  "string option \<Rightarrow> int \<Rightarrow> string \<Rightarrow> string \<Rightarrow> string \<Rightarrow> 64 word \<Rightarrow> bool \<Rightarrow> Transaction
     \<Rightarrow> error + Transaction" where
  "Exec_insert fault clock x l sid h cur tx =
     (case driver_check fault tx of
        Some e \<Rightarrow> Inl e
      | None \<Rightarrow> Inr (tx\<lparr>table := table tx @
          [\<lparr>x5u = Some x, label = l, signer_id = sid, hsm_handle = h,
            is_current = cur, created_at = clock\<rparr>]\<rparr>))"

text \<open>\<open>UPDATE endentities SET is_current=FALSE WHERE signer_id=$1 and label!=$2\<close>\<close>

definition Exec_update_current :: "string option \<Rightarrow> string \<Rightarrow> string \<Rightarrow> Transaction
     \<Rightarrow> error + Transaction" where
  "Exec_update_current fault sid l tx =
     (case driver_check fault tx of
        Some e \<Rightarrow> Inl e
      | None \<Rightarrow> Inr (tx\<lparr>table :=
          map (\<lambda>r. if signer_id r = sid \<and> label r \<noteq> l then r\<lparr>is_current := False\<rparr> else r)
            (table tx)\<rparr>))"

text \<open>
  \<open>ORDER BY created_at DESC LIMIT 1\<close>: a row with the greatest \<open>created_at\<close>. SQL
  leaves the choice among equal timestamps open; the model takes the first such row of
  the table.
\<close>

fun newest :: "endentity list \<Rightarrow> endentity option" where
  "newest [] = None"
| "newest (r # rs) =
     (case newest rs of
        None \<Rightarrow> Some r
      | Some r' \<Rightarrow> if created_at r < created_at r' then Some r' else Some r)"

text \<open>
  The rows matched by \<open>WHERE is_current=TRUE AND signer_id=$1 AND created_at > $2\<close>.
\<close>

definition qualifying :: "string \<Rightarrow> int \<Rightarrow> endentity list \<Rightarrow> endentity list" where
  "qualifying sid maxAge rows =
     filter (\<lambda>r. is_current r \<and> signer_id r = sid \<and> maxAge < created_at r) rows"

text \<open>
  \<open>tx.QueryRow(`SELECT label, x5u FROM endentities ...`).Scan(&label, &nullableX5U)\<close>:
  the error, or the two columns of the selected row.
\<close>

definition QueryRow_Scan :: "string option \<Rightarrow> Transaction \<Rightarrow> string \<Rightarrow> int
     \<Rightarrow> error + (string \<times> string option)" where
  "QueryRow_Scan fault tx sid maxAge =
     (case driver_check fault tx of
        Some e \<Rightarrow> Inl e
      | None \<Rightarrow>
         (case newest (qualifying sid maxAge (table tx)) of
            None \<Rightarrow> Inl ErrNoRows
          | Some r \<Rightarrow> Inr (label r, x5u r)))"

text \<open>\<open>sql.NullString.Value()\<close>: nil for NULL, the string otherwise; its error is always nil.\<close>

definition NullString_Value :: "string option \<Rightarrow> string option \<times> error option" where
  "NullString_Value ns = (ns, None)"

text \<open>
  \<open>GetLabelOfLatestEE\<close>. The results are the named results \<open>(label, x5u, err)\<close>. On
  an error of \<open>Scan\<close> the destinations keep their zero values. The short declaration
  \<open>x5uValue, err := nullableX5U.Value()\<close> stands in the function's own block, where
  \<open>err\<close> is already declared as a result: it assigns to that \<open>err\<close>.
\<close>

definition GetLabelOfLatestEE ::
  "string option \<Rightarrow> int \<Rightarrow> Transaction \<Rightarrow> string \<Rightarrow> int \<Rightarrow> string \<times> string \<times> error option" where
  "GetLabelOfLatestEE fault now tx signerID youngerThan =
     (let maxAge = now - youngerThan;
          (lbl, nullableX5U, err) =
            (case QueryRow_Scan fault tx signerID maxAge of
               Inl e \<Rightarrow> ([], None, Some e)
             | Inr (l, n) \<Rightarrow> (l, n, None))
      in if err = Some ErrNoRows then ([], [], Some ErrNoSuitableEEFound)
         else (let (x5uValue, err') = NullString_Value nullableX5U
               in (lbl, (case x5uValue of Some v \<Rightarrow> v | None \<Rightarrow> []), err')))"

text \<open>\<open>InsertEE\<close>: the error returned (\<open>None\<close> is nil) and the transaction afterwards.\<close>

definition InsertEE ::
  "string option \<Rightarrow> string option \<Rightarrow> int \<Rightarrow> string \<Rightarrow> string \<Rightarrow> string \<Rightarrow> 64 word \<Rightarrow> Transaction
     \<Rightarrow> error option \<times> Transaction" where
  "InsertEE fault1 fault2 clock x l signerID hsmHandle tx =
     (case Exec_insert fault1 clock x l signerID hsmHandle True tx of
        Inl e \<Rightarrow> (Some (Wrap e ''failed to insert new key in database''), Rollback tx)
      | Inr tx1 \<Rightarrow>
         (case Exec_update_current fault2 signerID l tx1 of
            Inl e \<Rightarrow>
              (Some (Wrap e ''failed to update is_current status of keys in database''),
               Rollback tx1)
          | Inr tx2 \<Rightarrow> (None, tx2)))"

text \<open>
  A sequence of \<open>InsertEE\<close> calls for one signer on one transaction, each executed by
  the store: a call is its arguments \<open>(x5u, label, hsmHandle)\<close> and the store's clock
  at that moment. The sequence stops at the first call that returns an error.
\<close>

type_synonym insert_call = "string \<times> string \<times> 64 word \<times> int"

fun InsertEE_calls :: "string \<Rightarrow> insert_call list \<Rightarrow> Transaction \<Rightarrow> error option \<times> Transaction" where
  "InsertEE_calls signerID [] tx = (None, tx)"
| "InsertEE_calls signerID ((x, l, h, clock) # cs) tx =
     (case InsertEE None None clock x l signerID h tx of
        (Some e, tx') \<Rightarrow> (Some e, tx')
      | (None, tx') \<Rightarrow> InsertEE_calls signerID cs tx')"

text \<open>The row a call inserts.\<close>

definition row_of :: "string \<Rightarrow> insert_call \<Rightarrow> endentity" where
  "row_of signerID c =
     (case c of (x, l, h, clock) \<Rightarrow>
        \<lparr>x5u = Some x, label = l, signer_id = signerID, hsm_handle = h,
         is_current = True, created_at = clock\<rparr>)"

text \<open>The rows of a signer marked current: the "direct check" of the table.\<close>

definition current_rows :: "string \<Rightarrow> endentity list \<Rightarrow> endentity list" where
  "current_rows sid rows = filter (\<lambda>r. signer_id r = sid \<and> is_current r) rows"


text \<open>The label a call inserts, and the labels a signer's rows carry.\<close>

definition call_label :: "insert_call \<Rightarrow> string" where
  "call_label c = fst (snd c)"

definition labels_of :: "string \<Rightarrow> endentity list \<Rightarrow> string set" where
  "labels_of sid rows = set (map label (filter (\<lambda>r. signer_id r = sid) rows))"

section \<open>Values shared by the signers\<close>

type_synonym byte = "8 word"

text \<open>
  A call either returns or panics (a failed type assertion aborts the goroutine).
\<close>

datatype 'a outcome = Returned 'a | Panic

text \<open>
  The values a caller can pass as \<open>options interface{}\<close>, as far as the signers
  distinguish them.
\<close>

datatype go_value =
    GoNil
  | GoBool bool
  | GoInt int
  | GoString string
  | GoSlice "go_value list"
  | GoMap "(string \<times> go_value) list"
  | GoChan

text \<open>\<open>%d\<close> of a length.\<close>

fun decimal :: "nat \<Rightarrow> string" where
  "decimal n =
     (if n < 10 then [''0123456789'' ! n]
      else decimal (n div 10) @ [''0123456789'' ! (n mod 10)])"

text \<open>
  \<open>signer.Configuration\<close>, with the fields the signers read and write. The database
  handle and the random source are only handed on to helpers and are left out.
\<close>

record Configuration =
  ID :: string
  Type :: string
  Mode :: string
  PrivateKey :: string
  PublicKey :: string
  X5U :: string
  Validity :: int
  ClockSkewTolerance :: int
  ChainUploadLocation :: string
  CaCert :: string

section \<open>The content-signature PKI signer (package contentsignaturepki)\<close>

text \<open>
  The constants of the package. Its constant \<open>Type\<close> is \<open>pki_Type\<close> here: the name
  \<open>Type\<close> is the field of the configuration.
\<close>

definition pki_Type :: string where
  "pki_Type = ''contentsignaturepki''"

definition P256ECDSA :: string where
  "P256ECDSA = ''p256ecdsa''"

definition P256ECDSABYTESIZE :: int where
  "P256ECDSABYTESIZE = 64"

definition P384ECDSA :: string where
  "P384ECDSA = ''p384ecdsa''"

definition P384ECDSABYTESIZE :: int where
  "P384ECDSABYTESIZE = 96"

definition P521ECDSA :: string where
  "P521ECDSA = ''p521ecdsa''"

definition P521ECDSABYTESIZE :: int where
  "P521ECDSABYTESIZE = 132"

definition SignaturePrefix :: "byte list" where
  "SignaturePrefix = map of_char ''Content-Signature:'' @ [0]"

text \<open>
  A private key is known by its name (a PEM block or an HSM label); a public key is an
  ECDSA key on a named curve (\<open>Params().Name\<close>) or a key of another type.
\<close>

type_synonym private_key = string

datatype public_key = ECDSAPublicKey string | OtherPublicKey

text \<open>
  \<open>ContentSigner\<close> embeds \<open>signer.Configuration\<close>: its fields are the signer's own.
  A key field is \<open>None\<close> while it holds the nil interface.
\<close>

record ContentSigner = Configuration +
  issuerPriv :: "private_key option"
  eePriv :: "private_key option"
  issuerPub :: "public_key option"
  eePub :: "public_key option"
  eeLabel :: string
  validity :: int
  clockSkewTolerance :: int
  chainUploadLocation :: string
  chain :: string
  caCert :: string

text \<open>
  \<open>ContentSignature\<close>: the fields \<open>SignHash\<close> fills (\<open>Len\<close>, \<open>Mode\<close>,
  \<open>X5U\<close>, \<open>ID\<close>, \<open>R\<close>, \<open>S\<close>, \<open>Finished\<close>) and the recorded hash name.
  \<open>R\<close> and \<open>S\<close> are \<open>*big.Int\<close>: \<open>None\<close> is nil.
\<close>

record ContentSignature =
  cs_Len :: int
  cs_Mode :: string
  cs_X5U :: string
  cs_ID :: string
  cs_R :: "int option"
  cs_S :: "int option"
  cs_Finished :: bool
  cs_HashName :: string

text \<open>
  The primitives of the standard library and of the key store the signer calls:
  \<open>crypto.Signer.Sign\<close> of a key on a digest (a DER signature or an error),
  \<open>asn1.Unmarshal\<close> into \<open>ecdsaAsn1Signature\<close> (the pair \<open>(R, S)\<close> or an error),
  and the three hash functions.
\<close>

record primitives =
  Sign :: "private_key \<Rightarrow> byte list \<Rightarrow> error + byte list"
  asn1_Unmarshal :: "byte list \<Rightarrow> error + (int \<times> int)"
  sha256 :: "byte list \<Rightarrow> byte list"
  sha384 :: "byte list \<Rightarrow> byte list"
  sha512 :: "byte list \<Rightarrow> byte list"

text \<open>The digest sizes of \<open>crypto/sha256\<close> and \<open>crypto/sha512\<close>.\<close>

definition digest_sizes :: "primitives \<Rightarrow> bool" where
  "digest_sizes P \<longleftrightarrow>
     (\<forall>x. length (sha256 P x) = 32) \<and> (\<forall>x. length (sha384 P x) = 48) \<and>
     (\<forall>x. length (sha512 P x) = 64)"

definition makeTemplatedHash :: "primitives \<Rightarrow> byte list \<Rightarrow> string \<Rightarrow> string \<times> byte list" where
  "makeTemplatedHash P data curvename =
     (let templated = SignaturePrefix @ data
      in if curvename = P384ECDSA then (''sha384'', sha384 P templated)
         else if curvename = P521ECDSA then (''sha512'', sha512 P templated)
         else (''sha256'', sha256 P templated))"

definition getSignatureLen :: "string \<Rightarrow> int" where
  "getSignatureLen mode =
     (if mode = P256ECDSA then P256ECDSABYTESIZE
      else if mode = P384ECDSA then P384ECDSABYTESIZE
      else if mode = P521ECDSA then P521ECDSABYTESIZE
      else - 1)"

definition getSignatureHash :: "string \<Rightarrow> string" where
  "getSignatureHash mode =
     (if mode = P256ECDSA then ''sha256''
      else if mode = P384ECDSA then ''sha384''
      else if mode = P521ECDSA then ''sha512''
      else [])"

text \<open>
  \<open>getModeFromCurve\<close>: the assertion \<open>s.issuerPub.(*ecdsa.PublicKey)\<close> panics on a
  key of another type and on nil.
\<close>

definition getModeFromCurve :: "ContentSigner \<Rightarrow> string outcome" where
  "getModeFromCurve s =
     (case issuerPub s of
        Some (ECDSAPublicKey name) \<Rightarrow>
          Returned (if name = ''P-256'' then P256ECDSA
                    else if name = ''P-384'' then P384ECDSA
                    else if name = ''P-521'' then P521ECDSA
                    else [])
      | _ \<Rightarrow> Panic)"

text \<open>
  \<open>SignHash\<close>: the pair \<open>(signer.Signature, error)\<close>. The assertion
  \<open>s.issuerPriv.(crypto.Signer)\<close> panics on nil.
\<close>

definition SignHash ::
  "primitives \<Rightarrow> ContentSigner \<Rightarrow> byte list \<Rightarrow> go_value
     \<Rightarrow> (ContentSignature option \<times> error option) outcome" where
  "SignHash P s input options =
     (if length input \<noteq> 32 \<and> length input \<noteq> 48 \<and> length input \<noteq> 64
      then Returned (None, Some (ErrorNew
        (''contentsignaturepki: refusing to sign input hash. length '' @ decimal (length input) @
         '', expected 32, 48 or 64'')))
      else
        (let csig = \<lparr>cs_Len = getSignatureLen (Mode s), cs_Mode = Mode s, cs_X5U = X5U s,
                      cs_ID = ID s, cs_R = None, cs_S = None, cs_Finished = False,
                      cs_HashName = []\<rparr>
         in case issuerPriv s of
              None \<Rightarrow> Panic
            | Some key \<Rightarrow>
               (case Sign P key input of
                  Inl err \<Rightarrow>
                    Returned (None, Some (Wrap err ''contentsignaturepki: failed to sign hash''))
                | Inr asn1Sig \<Rightarrow>
                   (case asn1_Unmarshal P asn1Sig of
                      Inl err \<Rightarrow>
                        Returned (None,
                          Some (Wrap err ''contentsignaturepki: failed to parse signature''))
                    | Inr (r, s') \<Rightarrow>
                        Returned (Some (csig\<lparr>cs_R := Some r, cs_S := Some s',
                          cs_Finished := True\<rparr>), None)))))"

text \<open>
  Modelled from the spec: \<open>storeHashName\<close>, a method of \<open>ContentSignature\<close>, is not in
  the source at hand. The specification says of \<open>SignData\<close> that it "records which
  hash algorithm name was used on the resulting signature object".
\<close>

definition storeHashName :: "string \<Rightarrow> ContentSignature \<Rightarrow> ContentSignature" where
  "storeHashName alg sig = sig\<lparr>cs_HashName := alg\<rparr>"

text \<open>
  \<open>SignData\<close>. The assertion \<open>sig.(*ContentSignature)\<close> is evaluated before
  \<open>err\<close> is looked at, and panics when \<open>sig\<close> is the nil interface.
\<close>

definition SignData ::
  "primitives \<Rightarrow> ContentSigner \<Rightarrow> byte list \<Rightarrow> go_value
     \<Rightarrow> (ContentSignature option \<times> error option) outcome" where
  "SignData P s input options =
     (if length input < 10
      then Returned (None, Some (ErrorNew
        ''contentsignaturepki: refusing to sign input data shorter than 10 bytes''))
      else
        (let (alg, hash) = makeTemplatedHash P input (Mode s)
         in case SignHash P s hash options of
              Panic \<Rightarrow> Panic
            | Returned (sig, err) \<Rightarrow>
               (case sig of
                  None \<Rightarrow> Panic
                | Some cs \<Rightarrow> Returned (Some (storeHashName alg cs), err))))"

text \<open>
  The helpers of \<open>New\<close> that are not in the source at hand enter as parameters:
  \<open>conf.GetKeysAndRand()\<close> (the issuer key pair or an error), \<open>s.findEE(conf)\<close> and
  \<open>s.makeEE(conf, pub)\<close> (the error and the signer as the method leaves it),
  \<open>verifyX5U\<close>, and the building and upload of a chain (the chain and the X5U of
  the uploaded chain, or an error). With them comes \<open>strconv.Quote\<close> of the standard
  library, by which \<open>%q\<close> formats a string in the messages of \<open>New\<close>.
\<close>

record environment =
  GetKeysAndRand :: "Configuration \<Rightarrow> error + (private_key \<times> public_key)"
  findEE :: "ContentSigner \<Rightarrow> Configuration \<Rightarrow> error option \<times> ContentSigner"
  makeEE :: "ContentSigner \<Rightarrow> Configuration \<Rightarrow> public_key option \<Rightarrow> error option \<times> ContentSigner"
  verifyX5U :: "string \<Rightarrow> error option"
  uploadChain :: "ContentSigner \<Rightarrow> error + (string \<times> string)"
  Quote :: "string \<Rightarrow> string"

text \<open>
  Modelled from the spec: \<open>makeChainAndX5U\<close>, a method of \<open>ContentSigner\<close>, is not in
  the source at hand. The specification has it "build and publish a certificate chain +
  X5U reference", and describes the repair path of \<open>New\<close>, which in the source is this
  one call, as "regenerate the chain and X5U (idempotent repair path) and re-verify": the
  new X5U is verified before the signer takes it.
\<close>

definition makeChainAndX5U :: "environment \<Rightarrow> ContentSigner \<Rightarrow> error option \<times> ContentSigner" where
  "makeChainAndX5U env s =
     (case uploadChain env s of
        Inl err \<Rightarrow> (Some err, s)
      | Inr (fullChain, newX5U) \<Rightarrow>
         (case verifyX5U env newX5U of
            Some err \<Rightarrow> (Some err, s)
          | None \<Rightarrow> (None, s\<lparr>X5U := newX5U, chain := fullChain\<rparr>)))"

text \<open>
  \<open>New\<close>, in the three blocks of its body. The first (to \<open>s.Mode = s.getModeFromCurve()\<close>)
  checks the configuration, loads the issuer key and derives the mode; it yields the
  signer and the configuration, whose validity it defaults to 30 days.
\<close>

definition New_issuer ::
  "environment \<Rightarrow> Configuration \<Rightarrow> (error + (ContentSigner \<times> Configuration)) outcome" where
  "New_issuer env conf =
     (let s = \<lparr>ID = ID conf, Type = Type conf, Mode = [], PrivateKey = PrivateKey conf,
               PublicKey = PublicKey conf, X5U = X5U conf, Validity = 0,
               ClockSkewTolerance = 0, ChainUploadLocation = [], CaCert = [],
               issuerPriv = None, eePriv = None, issuerPub = None, eePub = None,
               eeLabel = [], validity = Validity conf,
               clockSkewTolerance = ClockSkewTolerance conf,
               chainUploadLocation = ChainUploadLocation conf, chain = [],
               caCert = CaCert conf\<rparr>
      in if Type conf \<noteq> pki_Type
         then Returned (Inl (ErrorNew (''contentsignaturepki: invalid type '' @
                Quote env (Type conf) @ '', must be '' @ Quote env pki_Type)))
         else if ID conf = []
         then Returned (Inl (ErrorNew
                ''contentsignaturepki: missing signer ID in signer configuration''))
         else if PrivateKey conf = []
         then Returned (Inl (ErrorNew
                ''contentsignaturepki: missing private key in signer configuration''))
         else
           (case GetKeysAndRand env conf of
              Inl err \<Rightarrow>
                Returned (Inl (Wrap err (''contentsignaturepki: failed to retrieve signer '' @
                  Quote env (PrivateKey conf))))
            | Inr (priv, pub) \<Rightarrow>
               (let s = s\<lparr>issuerPriv := Some priv, issuerPub := Some pub\<rparr>;
                    conf = (if Validity conf = 0
                            then conf\<lparr>Validity := 720 * 3600000000000\<rparr> else conf)
                in case pub of
                     ECDSAPublicKey name \<Rightarrow>
                       (case getModeFromCurve s of
                          Panic \<Rightarrow> Panic
                        | Returned mode \<Rightarrow> Returned (Inr (s\<lparr>Mode := mode\<rparr>, conf)))
                   | OtherPublicKey \<Rightarrow>
                       Returned (Inl (ErrorNew
                         ''contentsignaturepki: invalid key for CA cert, must be ecdsa'')))))"

text \<open>The second block: find the end-entity, or make one and its chain.\<close>

definition New_endEntity :: "environment \<Rightarrow> ContentSigner \<Rightarrow> Configuration \<Rightarrow> error + ContentSigner" where
  "New_endEntity env s conf =
     (case findEE env s conf of
        (None, s1) \<Rightarrow> Inr s1
      | (Some err, s1) \<Rightarrow>
          if err = ErrNoSuitableEEFound
          then (case makeEE env s1 conf (issuerPub s1) of
                  (Some err, s2) \<Rightarrow>
                    Inl (Wrap err ''contentsignaturepki: failed to make suitable end-entity'')
                | (None, s2) \<Rightarrow>
                   (case makeChainAndX5U env s2 of
                      (Some err, s3) \<Rightarrow>
                        Inl (Wrap err
                          ''contentsignaturepki: failed to make chain and x5u for end-entity'')
                    | (None, s3) \<Rightarrow> Inr s3))
          else Inl (Wrap err ''contentsignaturepki: failed to find suitable end-entity''))"

text \<open>The third block: verify the X5U, and make a new chain when it cannot be retrieved.\<close>

definition New_x5u :: "environment \<Rightarrow> ContentSigner \<Rightarrow> error + ContentSigner" where
  "New_x5u env s =
     (case verifyX5U env (X5U s) of
        None \<Rightarrow> Inr s
      | Some err \<Rightarrow>
          if prefix ''failed to retrieve x5u'' (Error err)
          then (case makeChainAndX5U env s of
                  (Some err, s1) \<Rightarrow>
                    Inl (Wrap err
                      ''contentsignaturepki: failed to make chain and x5u for end-entity'')
                | (None, s1) \<Rightarrow> Inr s1)
          else Inl (Wrap err ''contentsignaturepki: failed to verify x5u''))"

definition New :: "environment \<Rightarrow> Configuration \<Rightarrow> (error + ContentSigner) outcome" where
  "New env conf =
     (case New_issuer env conf of
        Panic \<Rightarrow> Panic
      | Returned (Inl err) \<Rightarrow> Returned (Inl err)
      | Returned (Inr (s, conf')) \<Rightarrow>
         (case New_endEntity env s conf' of
            Inl err \<Rightarrow> Returned (Inl err)
          | Inr s1 \<Rightarrow> Returned (New_x5u env s1)))"

section \<open>The MAR signer (package mar)\<close>

record Options =
  SigAlg :: "32 word"

text \<open>
  \<open>encoding/json\<close>, as \<open>GetOptions\<close> uses it: \<open>json.Marshal\<close> of a value (the
  encoding or an error) and \<open>json.Unmarshal\<close> of an encoding into an \<open>Options\<close>
  (the error and the record as it is left).
\<close>

record encoding_json =
  Marshal :: "go_value \<Rightarrow> error + string"
  Unmarshal :: "string \<Rightarrow> Options \<Rightarrow> error option \<times> Options"

definition GetOptions :: "encoding_json \<Rightarrow> go_value \<Rightarrow> Options \<times> error option" where
  "GetOptions J input =
     (let options = \<lparr>SigAlg = 0\<rparr>
      in case Marshal J input of
           Inl err \<Rightarrow> (options, Some err)
         | Inr buf \<Rightarrow> (case Unmarshal J buf options of (err, options) \<Rightarrow> (options, err)))"

section \<open>Concrete signers and environments for the examples\<close>

text \<open>
  A signer as \<open>New\<close> leaves it for the configuration \<open>example_conf\<close>, in a given
  mode; primitives that succeed (with placeholder digests of the right sizes) and
  primitives whose key fails to sign; an environment in which the issuer key lies on a
  given curve and the X5U verifies as a given function says; and a fragment of
  \<open>encoding/json\<close>. In these examples a string is quoted by putting it between quote
  marks (\<open>quoted\<close>), which is what \<open>strconv.Quote\<close> and the encoding of a JSON string
  do to a string with no character to escape.
\<close>

definition quoted :: "string \<Rightarrow> string" where
  "quoted s = [CHR 0x22] @ s @ [CHR 0x22]"

definition example_signer :: "string \<Rightarrow> ContentSigner" where
  "example_signer mode =
     \<lparr>ID = ''testsigner'', Type = pki_Type, Mode = mode, PrivateKey = ''issuerkey'',
      PublicKey = [], X5U = ''https://example.net/chain.pem'', Validity = 0,
      ClockSkewTolerance = 0, ChainUploadLocation = [], CaCert = [],
      issuerPriv = Some ''issuerkey'', eePriv = None,
      issuerPub = Some (ECDSAPublicKey ''P-256''), eePub = None, eeLabel = [],
      validity = 0, clockSkewTolerance = 0, chainUploadLocation = [], chain = [],
      caCert = []\<rparr>"

definition example_primitives :: primitives where
  "example_primitives =
     \<lparr>Sign = (\<lambda>key digest. Inr [0x30, 0x06, 0x02, 0x01, 0x01, 0x02, 0x01, 0x02]),
      asn1_Unmarshal = (\<lambda>der. Inr (1, 2)),
      sha256 = (\<lambda>x. replicate 32 0),
      sha384 = (\<lambda>x. replicate 48 0),
      sha512 = (\<lambda>x. replicate 64 0)\<rparr>"

definition failing_primitives :: primitives where
  "failing_primitives =
     example_primitives\<lparr>Sign := (\<lambda>key digest. Inl (ErrorNew ''pkcs11: token not present''))\<rparr>"

definition example_conf :: Configuration where
  "example_conf =
     \<lparr>ID = ''testsigner'', Type = pki_Type, Mode = [], PrivateKey = ''issuerkey'',
      PublicKey = [], X5U = ''https://example.net/chain.pem'', Validity = 0,
      ClockSkewTolerance = 0, ChainUploadLocation = [], CaCert = []\<rparr>"

definition example_environment :: "string \<Rightarrow> (string \<Rightarrow> error option) \<Rightarrow> environment" where
  "example_environment curve verify =
     \<lparr>GetKeysAndRand = (\<lambda>conf. Inr (''issuerkey'', ECDSAPublicKey curve)),
      findEE = (\<lambda>s conf. (None, s)),
      makeEE = (\<lambda>s conf pub. (None, s)),
      verifyX5U = verify,
      uploadChain = (\<lambda>s. Inr (''-----BEGIN CERTIFICATE-----'', X5U s @ ''.new'')),
      Quote = quoted\<rparr>"

definition example_json :: encoding_json where
  "example_json =
     \<lparr>Marshal = (\<lambda>v. case v of
          GoNil \<Rightarrow> Inr ''null''
        | GoString x \<Rightarrow> Inr (quoted x)
        | GoChan \<Rightarrow> Inl (ErrorNew ''json: unsupported type: chan int'')
        | _ \<Rightarrow> Inr ''{}''),
      Unmarshal = (\<lambda>buf opts.
          if buf = ''null'' \<or> buf = ''{}'' then (None, opts)
          else (Some (ErrorNew
            ''json: cannot unmarshal string into Go value of type mar.Options''), opts))\<rparr>"

section \<open>Properties of the end-entity store\<close>

lemma InsertEE_executed:
  assumes "\<not> finished tx"
  shows "InsertEE None None clock x l sid h tx =
     (None, tx\<lparr>table :=
        map (\<lambda>r. if signer_id r = sid \<and> label r \<noteq> l then r\<lparr>is_current := False\<rparr> else r)
          (table tx @ [row_of sid (x, l, h, clock)])\<rparr>)"
  using assms
  by (simp add: InsertEE_def Exec_insert_def Exec_update_current_def driver_check_def row_of_def)

lemma current_rows_after_insert:
  assumes "l \<notin> labels_of sid rows"
  shows "current_rows sid
      (map (\<lambda>r. if signer_id r = sid \<and> label r \<noteq> l then r\<lparr>is_current := False\<rparr> else r)
         (rows @ [row_of sid (x, l, h, clock)])) = [row_of sid (x, l, h, clock)]"
proof -
  have old: "filter (\<lambda>r. signer_id r = sid \<and> is_current r)
      (map (\<lambda>r. if signer_id r = sid \<and> label r \<noteq> l then r\<lparr>is_current := False\<rparr> else r) rows) = []"
  proof -
    have "\<forall>r\<in>set rows. signer_id r = sid \<longrightarrow> label r \<noteq> l"
      using assms by (auto simp: labels_of_def)
    then show ?thesis by (induction rows) simp_all
  qed
  show ?thesis
    by (simp add: current_rows_def old) (simp add: row_of_def)
qed

lemma labels_after_insert:
  "labels_of sid
      (map (\<lambda>r. if signer_id r = sid \<and> label r \<noteq> l then r\<lparr>is_current := False\<rparr> else r)
         (rows @ [row_of sid (x, l, h, clock)])) = insert l (labels_of sid rows)"
proof -
  have "map label (filter (\<lambda>r. signer_id r = sid)
      (map (\<lambda>r. if signer_id r = sid \<and> label r \<noteq> l then r\<lparr>is_current := False\<rparr> else r) rows)) =
      map label (filter (\<lambda>r. signer_id r = sid) rows)"
    by (induction rows) simp_all
  then show ?thesis
    by (simp add: labels_of_def) (simp add: row_of_def)
qed

lemma InsertEE_step:
  assumes "\<not> finished tx" and "l \<notin> labels_of sid (table tx)"
  shows "fst (InsertEE None None clock x l sid h tx) = None"
    and "\<not> finished (snd (InsertEE None None clock x l sid h tx))"
    and "current_rows sid (table (snd (InsertEE None None clock x l sid h tx))) =
           [row_of sid (x, l, h, clock)]"
    and "labels_of sid (table (snd (InsertEE None None clock x l sid h tx))) =
           insert l (labels_of sid (table tx))"
proof -
  note e = InsertEE_executed [OF assms(1), of clock x l sid h]
  show "fst (InsertEE None None clock x l sid h tx) = None"
    by (simp only: e fst_conv)
  show "\<not> finished (snd (InsertEE None None clock x l sid h tx))"
    using assms(1) by (simp only: e snd_conv) simp
  have t: "table (snd (InsertEE None None clock x l sid h tx)) =
      map (\<lambda>r. if signer_id r = sid \<and> label r \<noteq> l then r\<lparr>is_current := False\<rparr> else r)
          (table tx @ [row_of sid (x, l, h, clock)])"
    by (simp only: e snd_conv) simp
  show "current_rows sid (table (snd (InsertEE None None clock x l sid h tx))) =
           [row_of sid (x, l, h, clock)]"
    by (simp only: t current_rows_after_insert [OF assms(2)])
  show "labels_of sid (table (snd (InsertEE None None clock x l sid h tx))) =
           insert l (labels_of sid (table tx))"
    by (simp only: t labels_after_insert)
qed

lemma InsertEE_calls_Cons:
  assumes "fst (InsertEE None None clock x l sid h tx) = None"
  shows "InsertEE_calls sid ((x, l, h, clock) # cs) tx =
     InsertEE_calls sid cs (snd (InsertEE None None clock x l sid h tx))"
  using assms by (cases "InsertEE None None clock x l sid h tx") simp

lemma InsertEE_calls_current:
  assumes "\<not> finished tx" and "distinct (map call_label cs)"
    and "labels_of sid (table tx) \<inter> set (map call_label cs) = {}" and "cs \<noteq> []"
  shows "fst (InsertEE_calls sid cs tx) = None \<and>
     \<not> finished (snd (InsertEE_calls sid cs tx)) \<and>
     current_rows sid (table (snd (InsertEE_calls sid cs tx))) = [row_of sid (last cs)]"
  using assms
proof (induction cs arbitrary: tx)
  case Nil
  then show ?case by simp
next
  case (Cons c cs)
  obtain x l h clock where c: "c = (x, l, h, clock)" by (cases c) auto
  let ?tx1 = "snd (InsertEE None None clock x l sid h tx)"
  let ?tx0 = "InsertEE None None clock x l sid h tx"
  have fresh: "l \<notin> labels_of sid (table tx)"
    using Cons.prems(3) by (auto simp: c call_label_def)
  note step = InsertEE_step [OF Cons.prems(1) fresh, of clock x h]
  have run: "InsertEE_calls sid (c # cs) tx = InsertEE_calls sid cs ?tx1"
    unfolding c by (rule InsertEE_calls_Cons) (rule step(1))
  show ?case
  proof (cases "cs = []")
    case True
    have "InsertEE_calls sid (c # cs) tx = (None, ?tx1)"
      by (subst run) (simp add: True)
    then show ?thesis
      using step(2,3) True by (simp add: c)
  next
    case False
    have "l \<notin> set (map call_label cs)"
      using Cons.prems(2) by (simp add: c call_label_def)
    then have "labels_of sid (table ?tx1) \<inter> set (map call_label cs) = {}"
      using Cons.prems(3) by (simp add: step(4))
    moreover have "distinct (map call_label cs)" using Cons.prems(2) by simp
    ultimately show ?thesis
      using Cons.IH [of ?tx1] False step(2) by (simp add: run)
  qed
qed


lemma GetLabelOfLatestEE_single:
  assumes "\<not> finished tx" and "current_rows sid (table tx) = [r]"
    and "now - youngerThan < created_at r"
  shows "GetLabelOfLatestEE None now tx sid youngerThan =
     (label r, (case x5u r of Some v \<Rightarrow> v | None \<Rightarrow> []), None)"
proof -
  have "qualifying sid (now - youngerThan) (table tx) =
      filter (\<lambda>r. now - youngerThan < created_at r) (current_rows sid (table tx))"
    unfolding qualifying_def current_rows_def filter_filter
    by (rule filter_cong) auto
  then have "qualifying sid (now - youngerThan) (table tx) = [r]"
    using assms(2,3) by simp
  then show ?thesis
    using assms(1)
    by (simp add: GetLabelOfLatestEE_def QueryRow_Scan_def driver_check_def NullString_Value_def)
qed

text \<open>
  Claim C1. For every sequence of \<open>InsertEE\<close> calls for one signer with pairwise
  distinct labels (none of them carried by a row the signer already has), executed by
  the store on an open transaction: after each call, that is after the first \<open>n\<close>
  calls for every \<open>0 < n \<le> length cs\<close>, every call so far has returned nil, exactly
  one row of the signer is current, the row of the \<open>n\<close>-th call, and
  \<open>GetLabelOfLatestEE\<close> with an age that reaches back to that row returns its label and
  its X5U with a nil error.
\<close>

theorem InsertEE_latest_is_only_current:
  assumes "\<not> finished tx" and "distinct (map call_label cs)"
    and "labels_of sid (table tx) \<inter> set (map call_label cs) = {}"
    and "0 < n" and "n \<le> length cs"
    and "now - youngerThan < created_at (row_of sid (cs ! (n - 1)))"
  shows "fst (InsertEE_calls sid (take n cs) tx) = None \<and>
     current_rows sid (table (snd (InsertEE_calls sid (take n cs) tx))) =
       [row_of sid (cs ! (n - 1))] \<and>
     GetLabelOfLatestEE None now (snd (InsertEE_calls sid (take n cs) tx)) sid youngerThan =
       (call_label (cs ! (n - 1)), fst (cs ! (n - 1)), None)"
proof -
  let ?pre = "take n cs"
  have ne: "?pre \<noteq> []" using assms(4,5) by auto
  have lst: "last ?pre = cs ! (n - 1)"
    using ne assms(4,5) by (simp add: last_conv_nth)
  have d: "distinct (map call_label ?pre)"
    using assms(2) by (simp add: take_map [symmetric])
  have "set ?pre \<subseteq> set cs"
    by (rule set_take_subset)
  then have f: "labels_of sid (table tx) \<inter> set (map call_label ?pre) = {}"
    using assms(3) by auto
  note inv = InsertEE_calls_current [OF assms(1) d f ne, unfolded lst]
  from inv have fin: "\<not> finished (snd (InsertEE_calls sid ?pre tx))"
    and cur: "current_rows sid (table (snd (InsertEE_calls sid ?pre tx))) =
       [row_of sid (cs ! (n - 1))]"
    by simp_all
  have g: "GetLabelOfLatestEE None now (snd (InsertEE_calls sid ?pre tx)) sid youngerThan =
      (label (row_of sid (cs ! (n - 1))),
       (case x5u (row_of sid (cs ! (n - 1))) of Some v \<Rightarrow> v | None \<Rightarrow> []), None)"
    using fin cur assms(6) by (rule GetLabelOfLatestEE_single)
  have l: "label (row_of sid (cs ! (n - 1))) = call_label (cs ! (n - 1))"
    by (cases "cs ! (n - 1)") (simp add: row_of_def call_label_def)
  have x: "(case x5u (row_of sid (cs ! (n - 1))) of Some v \<Rightarrow> v | None \<Rightarrow> []) = fst (cs ! (n - 1))"
    by (cases "cs ! (n - 1)") (simp add: row_of_def)
  show ?thesis
    using inv g by (simp only: l x)
qed

theorem InsertEE_latest_is_only_current_witness:
  "\<not> finished \<lparr>snapshot = [], table = [], finished = False, tx_ID = 1\<rparr> \<and>
   distinct (map call_label [(''u1'', ''k1'', 7, 10), (''u2'', ''k2'', 8, 20)]) \<and>
   labels_of ''signer'' (table \<lparr>snapshot = [], table = [], finished = False, tx_ID = 1\<rparr>) \<inter>
     set (map call_label [(''u1'', ''k1'', 7, 10), (''u2'', ''k2'', 8, 20)]) = {} \<and>
   (0::nat) < 2 \<and> (2::nat) \<le> length [(''u1'', ''k1'', 7::64 word, 10::int), (''u2'', ''k2'', 8, 20)] \<and>
   current_rows ''signer'' (table (snd (InsertEE_calls ''signer''
       [(''u1'', ''k1'', 7, 10), (''u2'', ''k2'', 8, 20)]
       \<lparr>snapshot = [], table = [], finished = False, tx_ID = 1\<rparr>))) =
     [\<lparr>x5u = Some ''u2'', label = ''k2'', signer_id = ''signer'', hsm_handle = 8,
       is_current = True, created_at = 20\<rparr>] \<and>
   GetLabelOfLatestEE None 100 (snd (InsertEE_calls ''signer''
       [(''u1'', ''k1'', 7, 10), (''u2'', ''k2'', 8, 20)]
       \<lparr>snapshot = [], table = [], finished = False, tx_ID = 1\<rparr>)) ''signer'' 1000 =
     (''k2'', ''u2'', None)"
  using InsertEE_latest_is_only_current
    [of "\<lparr>snapshot = [], table = [], finished = False, tx_ID = 1\<rparr>"
        "[(''u1'', ''k1'', 7, 10), (''u2'', ''k2'', 8, 20)]" "''signer''" 2 100 1000]
  by (simp add: call_label_def labels_of_def row_of_def)

lemma GetLabelOfLatestEE_no_rows:
  assumes "QueryRow_Scan fault tx signerID (now - youngerThan) = Inl ErrNoRows"
  shows "GetLabelOfLatestEE fault now tx signerID youngerThan = ([], [], Some ErrNoSuitableEEFound)"
  using assms by (simp add: GetLabelOfLatestEE_def)

lemma GetLabelOfLatestEE_query_error:
  assumes "QueryRow_Scan fault tx signerID (now - youngerThan) = Inl e" and "e \<noteq> ErrNoRows"
  shows "GetLabelOfLatestEE fault now tx signerID youngerThan = ([], [], None)"
  using assms by (simp add: GetLabelOfLatestEE_def NullString_Value_def)

text \<open>
  Claim C2. When the query of \<open>GetLabelOfLatestEE\<close> fails with an error other than
  \<open>sql.ErrNoRows\<close> (here the driver reports a lost connection), the call returns the
  empty label, the empty X5U and a nil error: the error of the query is overwritten by
  the nil error of \<open>nullableX5U.Value()\<close>.
\<close>

theorem GetLabelOfLatestEE_loses_query_error:
  "GetLabelOfLatestEE (Some ''driver: bad connection'') 100
     \<lparr>snapshot = [], table = [], finished = False, tx_ID = 1\<rparr> ''signer'' 1000 = ([], [], None)"
  by (simp add: GetLabelOfLatestEE_def QueryRow_Scan_def driver_check_def NullString_Value_def)

section \<open>Properties of the content-signature PKI signer\<close>

lemma SignaturePrefix_bytes:
  "SignaturePrefix = [0x43, 0x6f, 0x6e, 0x74, 0x65, 0x6e, 0x74, 0x2d, 0x53, 0x69,
     0x67, 0x6e, 0x61, 0x74, 0x75, 0x72, 0x65, 0x3a, 0x00]"
  by (simp add: SignaturePrefix_def)

lemma digest_sizes_example: "digest_sizes example_primitives"
  by (simp add: digest_sizes_def example_primitives_def)

lemma digest_sizes_failing: "digest_sizes failing_primitives"
  by (simp add: digest_sizes_def example_primitives_def failing_primitives_def)

lemma makeTemplatedHash_length:
  assumes "digest_sizes P"
  shows "length (snd (makeTemplatedHash P data curvename)) = 32 \<or>
         length (snd (makeTemplatedHash P data curvename)) = 48 \<or>
         length (snd (makeTemplatedHash P data curvename)) = 64"
  using assms by (simp add: makeTemplatedHash_def digest_sizes_def Let_def)

lemma SignData_sign_error_panics:
  assumes "10 \<le> length input" and "digest_sizes P" and "issuerPriv s = Some key"
    and "Sign P key (snd (makeTemplatedHash P input (Mode s))) = Inl err"
  shows "SignData P s input options = Panic"
proof -
  obtain alg h where th: "makeTemplatedHash P input (Mode s) = (alg, h)"
    by (cases "makeTemplatedHash P input (Mode s)")
  have len: "length h = 32 \<or> length h = 48 \<or> length h = 64"
    using makeTemplatedHash_length [OF assms(2), of input "Mode s"] by (simp add: th)
  have "SignHash P s h options =
      Returned (None, Some (Wrap err ''contentsignaturepki: failed to sign hash''))"
    using len assms(3,4) by (auto simp: SignHash_def th)
  then show ?thesis
    using assms(1) by (simp add: SignData_def th)
qed

text \<open>
  Claim C3. A failure of the signing primitive inside \<open>SignHash\<close> called from
  \<open>SignData\<close> is not returned to the caller: \<open>SignHash\<close> returns the nil signature
  with the error, and \<open>SignData\<close> asserts the type of that nil interface before it
  looks at the error, which panics. Here the issuer key's \<open>Sign\<close> fails on a signer in
  mode \<open>p256ecdsa\<close> and an input of ten bytes.
\<close>

theorem SignData_panics_when_signing_fails:
  "SignData failing_primitives (example_signer P256ECDSA) (replicate 10 0) GoNil = Panic"
proof (rule SignData_sign_error_panics [where key = "''issuerkey''"])
  show "digest_sizes failing_primitives" by (rule digest_sizes_failing)
qed (simp_all add: example_signer_def failing_primitives_def)

lemma SignHash_signed:
  assumes "length input = 32 \<or> length input = 48 \<or> length input = 64"
    and "issuerPriv s = Some key" and "Sign P key input = Inr der"
    and "asn1_Unmarshal P der = Inr (r, s')"
  shows "SignHash P s input options =
     Returned (Some \<lparr>cs_Len = getSignatureLen (Mode s), cs_Mode = Mode s, cs_X5U = X5U s,
       cs_ID = ID s, cs_R = Some r, cs_S = Some s', cs_Finished = True, cs_HashName = []\<rparr>,
       None)"
  using assms by (auto simp: SignHash_def)

lemma makeTemplatedHash_modes:
  "makeTemplatedHash P data P256ECDSA = (''sha256'', sha256 P (SignaturePrefix @ data))"
  "makeTemplatedHash P data P384ECDSA = (''sha384'', sha384 P (SignaturePrefix @ data))"
  "makeTemplatedHash P data P521ECDSA = (''sha512'', sha512 P (SignaturePrefix @ data))"
  by (simp_all add: makeTemplatedHash_def P256ECDSA_def P384ECDSA_def P521ECDSA_def)

lemma SignData_short:
  assumes "length input < 10"
  shows "SignData P s input options = Returned (None, Some (ErrorNew
     ''contentsignaturepki: refusing to sign input data shorter than 10 bytes''))"
  using assms by (simp add: SignData_def)

lemma SignData_signed:
  assumes "10 \<le> length input" and "digest_sizes P" and "issuerPriv s = Some key"
    and "makeTemplatedHash P input (Mode s) = (alg, h)"
    and "Sign P key h = Inr der" and "asn1_Unmarshal P der = Inr (r, s')"
  shows "SignData P s input options =
     Returned (Some \<lparr>cs_Len = getSignatureLen (Mode s), cs_Mode = Mode s, cs_X5U = X5U s,
       cs_ID = ID s, cs_R = Some r, cs_S = Some s', cs_Finished = True, cs_HashName = alg\<rparr>,
       None)"
proof -
  have len: "length h = 32 \<or> length h = 48 \<or> length h = 64"
    using makeTemplatedHash_length [OF assms(2), of input "Mode s"] by (simp add: assms(4))
  note sh = SignHash_signed [OF len assms(3,5,6), of options]
  show ?thesis
    using assms(1) by (simp add: SignData_def assms(4) sh storeHashName_def)
qed

text \<open>
  Claim C4. For every input shorter than 10 bytes \<open>SignData\<close> returns the error
  "refusing to sign input data shorter than 10 bytes" (InvalidInput). For every input of
  at least 10 bytes, on a signer that holds its issuer key and one of the three modes,
  the digest is that of \<open>"Content-Signature:\x00"\<close> followed by the input, under SHA-256
  in mode \<open>p256ecdsa\<close>, SHA-384 in \<open>p384ecdsa\<close> and SHA-512 in \<open>p521ecdsa\<close>, and, the
  key signing that digest, the signature returned carries the name of that hash.
\<close>

theorem SignData_templated_hash:
  "(length input < 10 \<longrightarrow>
      SignData P s input options = Returned (None, Some (ErrorNew
        ''contentsignaturepki: refusing to sign input data shorter than 10 bytes''))) \<and>
   (10 \<le> length input \<and> digest_sizes P \<and> issuerPriv s = Some key \<and>
    (Mode s = P256ECDSA \<or> Mode s = P384ECDSA \<or> Mode s = P521ECDSA) \<and>
    Sign P key (snd (makeTemplatedHash P input (Mode s))) = Inr der \<and>
    asn1_Unmarshal P der = Inr (r, s') \<longrightarrow>
      makeTemplatedHash P input (Mode s) =
        (if Mode s = P256ECDSA then (''sha256'', sha256 P (SignaturePrefix @ input))
         else if Mode s = P384ECDSA then (''sha384'', sha384 P (SignaturePrefix @ input))
         else (''sha512'', sha512 P (SignaturePrefix @ input))) \<and>
      SignData P s input options =
        Returned (Some \<lparr>cs_Len = getSignatureLen (Mode s), cs_Mode = Mode s, cs_X5U = X5U s,
          cs_ID = ID s, cs_R = Some r, cs_S = Some s', cs_Finished = True,
          cs_HashName = (if Mode s = P256ECDSA then ''sha256''
                         else if Mode s = P384ECDSA then ''sha384'' else ''sha512'')\<rparr>,
          None))"
proof (intro conjI impI)
  assume "length input < 10"
  then show "SignData P s input options = Returned (None, Some (ErrorNew
        ''contentsignaturepki: refusing to sign input data shorter than 10 bytes''))"
    by (rule SignData_short)
next
  assume a: "10 \<le> length input \<and> digest_sizes P \<and> issuerPriv s = Some key \<and>
    (Mode s = P256ECDSA \<or> Mode s = P384ECDSA \<or> Mode s = P521ECDSA) \<and>
    Sign P key (snd (makeTemplatedHash P input (Mode s))) = Inr der \<and>
    asn1_Unmarshal P der = Inr (r, s')"
  then have mode: "Mode s = P256ECDSA \<or> Mode s = P384ECDSA \<or> Mode s = P521ECDSA"
    by simp
  have distinct_modes: "P256ECDSA \<noteq> P384ECDSA" "P256ECDSA \<noteq> P521ECDSA" "P384ECDSA \<noteq> P521ECDSA"
    by (simp_all add: P256ECDSA_def P384ECDSA_def P521ECDSA_def)
  show th: "makeTemplatedHash P input (Mode s) =
        (if Mode s = P256ECDSA then (''sha256'', sha256 P (SignaturePrefix @ input))
         else if Mode s = P384ECDSA then (''sha384'', sha384 P (SignaturePrefix @ input))
         else (''sha512'', sha512 P (SignaturePrefix @ input)))"
    using mode distinct_modes by (auto simp: makeTemplatedHash_modes)
  obtain alg h where ah: "makeTemplatedHash P input (Mode s) = (alg, h)"
    by (cases "makeTemplatedHash P input (Mode s)")
  have alg: "alg = (if Mode s = P256ECDSA then ''sha256''
                         else if Mode s = P384ECDSA then ''sha384'' else ''sha512'')"
    using th ah by (auto split: if_splits)
  have "SignData P s input options =
     Returned (Some \<lparr>cs_Len = getSignatureLen (Mode s), cs_Mode = Mode s, cs_X5U = X5U s,
       cs_ID = ID s, cs_R = Some r, cs_S = Some s', cs_Finished = True, cs_HashName = alg\<rparr>,
       None)"
    using a by (intro SignData_signed [where key = key and h = h and der = der]) (simp_all add: ah)
  then show "SignData P s input options =
        Returned (Some \<lparr>cs_Len = getSignatureLen (Mode s), cs_Mode = Mode s, cs_X5U = X5U s,
          cs_ID = ID s, cs_R = Some r, cs_S = Some s', cs_Finished = True,
          cs_HashName = (if Mode s = P256ECDSA then ''sha256''
                         else if Mode s = P384ECDSA then ''sha384'' else ''sha512'')\<rparr>,
          None)"
    by (simp only: alg)
qed

theorem SignData_templated_hash_witness:
  "SignData example_primitives (example_signer P384ECDSA) (replicate 9 1) GoNil =
     Returned (None, Some (ErrorNew
       ''contentsignaturepki: refusing to sign input data shorter than 10 bytes'')) \<and>
   makeTemplatedHash example_primitives (replicate 10 1) P384ECDSA =
     (''sha384'', sha384 example_primitives (SignaturePrefix @ replicate 10 1)) \<and>
   SignData example_primitives (example_signer P384ECDSA) (replicate 10 1) GoNil =
     Returned (Some \<lparr>cs_Len = 96, cs_Mode = ''p384ecdsa'',
       cs_X5U = ''https://example.net/chain.pem'', cs_ID = ''testsigner'', cs_R = Some 1,
       cs_S = Some 2, cs_Finished = True, cs_HashName = ''sha384''\<rparr>, None)"
  using SignData_templated_hash [where input = "replicate 9 1" and P = example_primitives
      and s = "example_signer P384ECDSA" and options = GoNil]
    SignData_templated_hash [where input = "replicate 10 1" and P = example_primitives
      and s = "example_signer P384ECDSA" and options = GoNil and key = "''issuerkey''"
      and der = "[0x30, 0x06, 0x02, 0x01, 0x01, 0x02, 0x01, 0x02]" and r = 1 and s' = 2]
    digest_sizes_example
  by (simp add: example_signer_def example_primitives_def getSignatureLen_def P256ECDSA_def
      P384ECDSA_def P521ECDSA_def P384ECDSABYTESIZE_def)

text \<open>
  Claim C5. For every digest whose length is not 32, 48 or 64, \<open>SignHash\<close> returns the
  error "refusing to sign input hash. length n, expected 32, 48 or 64"
  (InvalidHashLength); for every digest of length 32, 48 or 64 it returns no such error,
  whatever the signer and the primitives do.
\<close>

theorem SignHash_length_check:
  "(length input \<noteq> 32 \<and> length input \<noteq> 48 \<and> length input \<noteq> 64 \<longrightarrow>
      SignHash P s input options = Returned (None, Some (ErrorNew
        (''contentsignaturepki: refusing to sign input hash. length '' @ decimal (length input) @
         '', expected 32, 48 or 64'')))) \<and>
   (length input = 32 \<or> length input = 48 \<or> length input = 64 \<longrightarrow>
      (\<forall>m. SignHash P s input options \<noteq> Returned (None, Some (ErrorNew m))))"
  by (auto simp: SignHash_def split: option.splits sum.splits)

theorem SignHash_length_check_witness:
  "SignHash example_primitives (example_signer P256ECDSA) (replicate 31 0) GoNil =
     Returned (None, Some (ErrorNew
       ''contentsignaturepki: refusing to sign input hash. length 31, expected 32, 48 or 64'')) \<and>
   (\<forall>m. SignHash example_primitives (example_signer P256ECDSA) (replicate 48 0) GoNil \<noteq>
     Returned (None, Some (ErrorNew m)))"
  using SignHash_length_check [where input = "replicate 31 0" and P = example_primitives
      and s = "example_signer P256ECDSA" and options = GoNil]
    SignHash_length_check [where input = "replicate 48 0" and P = example_primitives
      and s = "example_signer P256ECDSA" and options = GoNil]
  by simp

text \<open>
  Claim C6. For every digest of length 32, 48 or 64 that the issuer key of a signer in a
  supported mode signs, \<open>SignHash\<close> returns a content signature whose length is 64 in
  mode \<open>p256ecdsa\<close>, 96 in \<open>p384ecdsa\<close> and 132 in \<open>p521ecdsa\<close>, with \<open>R\<close> and
  \<open>S\<close> set to the parsed values, \<open>Mode\<close>, \<open>X5U\<close> and \<open>ID\<close> those of the signer,
  and \<open>Finished\<close> true.
\<close>

theorem SignHash_content_signature:
  assumes "length input = 32 \<or> length input = 48 \<or> length input = 64"
    and "Mode s = P256ECDSA \<or> Mode s = P384ECDSA \<or> Mode s = P521ECDSA"
    and "issuerPriv s = Some key" and "Sign P key input = Inr der"
    and "asn1_Unmarshal P der = Inr (r, s')"
  shows "SignHash P s input options =
     Returned (Some \<lparr>cs_Len = (if Mode s = P256ECDSA then 64
                                else if Mode s = P384ECDSA then 96 else 132),
       cs_Mode = Mode s, cs_X5U = X5U s, cs_ID = ID s, cs_R = Some r, cs_S = Some s',
       cs_Finished = True, cs_HashName = []\<rparr>, None)"
proof -
  have "getSignatureLen (Mode s) =
      (if Mode s = P256ECDSA then 64 else if Mode s = P384ECDSA then 96 else 132)"
    using assms(2)
    by (auto simp: getSignatureLen_def P256ECDSABYTESIZE_def P384ECDSABYTESIZE_def
        P521ECDSABYTESIZE_def)
  then show ?thesis
    using SignHash_signed [OF assms(1,3,4,5), of options] by simp
qed

theorem SignHash_content_signature_witness:
  "SignHash example_primitives (example_signer P521ECDSA) (replicate 64 0) GoNil =
     Returned (Some \<lparr>cs_Len = 132, cs_Mode = ''p521ecdsa'',
       cs_X5U = ''https://example.net/chain.pem'', cs_ID = ''testsigner'', cs_R = Some 1,
       cs_S = Some 2, cs_Finished = True, cs_HashName = []\<rparr>, None)"
  using SignHash_content_signature [where input = "replicate 64 0" and P = example_primitives
      and s = "example_signer P521ECDSA" and options = GoNil and key = "''issuerkey''"
      and der = "[0x30, 0x06, 0x02, 0x01, 0x01, 0x02, 0x01, 0x02]" and r = 1 and s' = 2]
  by (simp add: example_signer_def example_primitives_def P256ECDSA_def
      P384ECDSA_def P521ECDSA_def)

text \<open>
  Claim C10. For every mode string other than \<open>p384ecdsa\<close> and \<open>p521ecdsa\<close>, the empty
  and the unrecognized ones too, \<open>makeTemplatedHash\<close> hashes with SHA-256 and reports
  the name \<open>sha256\<close>; the digest has 32 bytes and \<open>SignHash\<close> does not refuse its
  length; and \<open>SignData\<close> on a signer in that mode, its key signing the digest, returns
  a signature: the mode is not rejected.
\<close>

theorem makeTemplatedHash_default_sha256:
  assumes "curvename \<noteq> P384ECDSA" and "curvename \<noteq> P521ECDSA" and "digest_sizes P"
  shows "makeTemplatedHash P data curvename = (''sha256'', sha256 P (SignaturePrefix @ data)) \<and>
     length (snd (makeTemplatedHash P data curvename)) = 32 \<and>
     (\<forall>m. SignHash P s (snd (makeTemplatedHash P data curvename)) options \<noteq>
        Returned (None, Some (ErrorNew m))) \<and>
     (10 \<le> length data \<and> Mode s = curvename \<and> issuerPriv s = Some key \<and>
      Sign P key (sha256 P (SignaturePrefix @ data)) = Inr der \<and>
      asn1_Unmarshal P der = Inr (r, s') \<longrightarrow>
        SignData P s data options =
          Returned (Some \<lparr>cs_Len = getSignatureLen curvename, cs_Mode = curvename,
            cs_X5U = X5U s, cs_ID = ID s, cs_R = Some r, cs_S = Some s', cs_Finished = True,
            cs_HashName = ''sha256''\<rparr>, None))"
proof -
  have th: "makeTemplatedHash P data curvename = (''sha256'', sha256 P (SignaturePrefix @ data))"
    using assms(1,2) by (simp add: makeTemplatedHash_def)
  have len: "length (sha256 P (SignaturePrefix @ data)) = 32"
    using assms(3) by (simp add: digest_sizes_def)
  have chk: "\<forall>m. SignHash P s (sha256 P (SignaturePrefix @ data)) options \<noteq>
        Returned (None, Some (ErrorNew m))"
    using len by (auto simp: SignHash_def split: option.splits sum.splits)
  have sd: "10 \<le> length data \<and> Mode s = curvename \<and> issuerPriv s = Some key \<and>
      Sign P key (sha256 P (SignaturePrefix @ data)) = Inr der \<and>
      asn1_Unmarshal P der = Inr (r, s') \<longrightarrow>
        SignData P s data options =
          Returned (Some \<lparr>cs_Len = getSignatureLen curvename, cs_Mode = curvename,
            cs_X5U = X5U s, cs_ID = ID s, cs_R = Some r, cs_S = Some s', cs_Finished = True,
            cs_HashName = ''sha256''\<rparr>, None)"
  proof
    assume a: "10 \<le> length data \<and> Mode s = curvename \<and> issuerPriv s = Some key \<and>
      Sign P key (sha256 P (SignaturePrefix @ data)) = Inr der \<and>
      asn1_Unmarshal P der = Inr (r, s')"
    then have m: "Mode s = curvename" by simp
    have "SignData P s data options =
       Returned (Some \<lparr>cs_Len = getSignatureLen (Mode s), cs_Mode = Mode s, cs_X5U = X5U s,
         cs_ID = ID s, cs_R = Some r, cs_S = Some s', cs_Finished = True,
         cs_HashName = ''sha256''\<rparr>, None)"
      using a assms(3)
      by (intro SignData_signed [where key = key and der = der
            and h = "sha256 P (SignaturePrefix @ data)"]) (simp_all add: th)
    then show "SignData P s data options =
          Returned (Some \<lparr>cs_Len = getSignatureLen curvename, cs_Mode = curvename,
            cs_X5U = X5U s, cs_ID = ID s, cs_R = Some r, cs_S = Some s', cs_Finished = True,
            cs_HashName = ''sha256''\<rparr>, None)"
      by (simp only: m)
  qed
  show ?thesis
    using len chk sd by (simp only: th snd_conv) simp
qed

theorem makeTemplatedHash_default_sha256_witness:
  "makeTemplatedHash example_primitives (replicate 10 0) ''ed25519'' =
     (''sha256'', sha256 example_primitives (SignaturePrefix @ replicate 10 0)) \<and>
   length (snd (makeTemplatedHash example_primitives (replicate 10 0) ''ed25519'')) = 32 \<and>
   (\<forall>m. SignHash example_primitives (example_signer ''ed25519'')
       (snd (makeTemplatedHash example_primitives (replicate 10 0) ''ed25519'')) GoNil \<noteq>
     Returned (None, Some (ErrorNew m))) \<and>
   SignData example_primitives (example_signer ''ed25519'') (replicate 10 0) GoNil =
     Returned (Some \<lparr>cs_Len = - 1, cs_Mode = ''ed25519'',
       cs_X5U = ''https://example.net/chain.pem'', cs_ID = ''testsigner'', cs_R = Some 1,
       cs_S = Some 2, cs_Finished = True, cs_HashName = ''sha256''\<rparr>, None)"
proof -
  have h: "''ed25519'' \<noteq> P384ECDSA" "''ed25519'' \<noteq> P521ECDSA"
    by (simp_all add: P384ECDSA_def P521ECDSA_def)
  note t = makeTemplatedHash_default_sha256 [OF h digest_sizes_example,
      where data = "replicate 10 0" and s = "example_signer ''ed25519''" and options = GoNil
      and key = "''issuerkey''" and der = "[0x30, 0x06, 0x02, 0x01, 0x01, 0x02, 0x01, 0x02]"
      and r = 1 and s' = 2]
  have l: "getSignatureLen ''ed25519'' = - 1"
    by (simp add: getSignatureLen_def P256ECDSA_def P384ECDSA_def P521ECDSA_def)
  have f: "X5U (example_signer ''ed25519'') = ''https://example.net/chain.pem''"
    "ID (example_signer ''ed25519'') = ''testsigner''"
    by (simp_all add: example_signer_def)
  have prem: "10 \<le> length (replicate 10 (0::byte)) \<and>
      Mode (example_signer ''ed25519'') = ''ed25519'' \<and>
      issuerPriv (example_signer ''ed25519'') = Some ''issuerkey'' \<and>
      Sign example_primitives ''issuerkey''
        (sha256 example_primitives (SignaturePrefix @ replicate 10 0)) =
        Inr [0x30, 0x06, 0x02, 0x01, 0x01, 0x02, 0x01, 0x02] \<and>
      asn1_Unmarshal example_primitives [0x30, 0x06, 0x02, 0x01, 0x01, 0x02, 0x01, 0x02] =
        Inr (1, 2)"
    by (simp add: example_signer_def example_primitives_def)
  from t prem have "SignData example_primitives (example_signer ''ed25519'') (replicate 10 0) GoNil =
     Returned (Some \<lparr>cs_Len = getSignatureLen ''ed25519'', cs_Mode = ''ed25519'',
       cs_X5U = X5U (example_signer ''ed25519''), cs_ID = ID (example_signer ''ed25519''),
       cs_R = Some 1, cs_S = Some 2, cs_Finished = True, cs_HashName = ''sha256''\<rparr>, None)"
    by blast
  then have sd: "SignData example_primitives (example_signer ''ed25519'') (replicate 10 0) GoNil =
     Returned (Some \<lparr>cs_Len = - 1, cs_Mode = ''ed25519'',
       cs_X5U = ''https://example.net/chain.pem'', cs_ID = ''testsigner'', cs_R = Some 1,
       cs_S = Some 2, cs_Finished = True, cs_HashName = ''sha256''\<rparr>, None)"
    by (simp only: l f)
  show ?thesis
    using t sd by blast
qed

lemma New_issuer_ecdsa:
  assumes "Type conf = pki_Type" and "ID conf \<noteq> []" and "PrivateKey conf \<noteq> []"
    and "GetKeysAndRand env conf = Inr (priv, ECDSAPublicKey name)"
  shows "\<exists>s conf'. New_issuer env conf = Returned (Inr (s, conf')) \<and>
     issuerPub s = Some (ECDSAPublicKey name) \<and>
     Mode s = (if name = ''P-256'' then P256ECDSA
               else if name = ''P-384'' then P384ECDSA
               else if name = ''P-521'' then P521ECDSA else [])"
  using assms by (simp add: New_issuer_def getModeFromCurve_def Let_def)

text \<open>
  Claim C7 as stated fails: with an issuer key on the curve P-224, an end-entity found and
  an X5U that verifies, \<open>New\<close> returns a signer, whose mode is the empty string.
\<close>

theorem New_accepts_unrecognized_curve:
  "New (example_environment ''P-224'' (\<lambda>u. None)) example_conf =
     Returned (Inr ((example_signer [])\<lparr>issuerPub := Some (ECDSAPublicKey ''P-224'')\<rparr>))"
  by (simp add: New_def New_issuer_def New_endEntity_def New_x5u_def getModeFromCurve_def
      example_environment_def example_conf_def example_signer_def Let_def)

text \<open>
  Claim C7, amended. For every configuration that passes the checks of type, ID and
  private key: when its issuer public key is an ECDSA key on a curve other than P-256,
  P-384 and P-521, the first block of \<open>New\<close> does not fail: \<open>getModeFromCurve\<close>
  returns the empty string, which becomes the signer's mode, and construction goes on
  with the end-entity and the X5U, whose outcome is the outcome of \<open>New\<close>; when its
  issuer public key is not an ECDSA key, \<open>New\<close> returns the error "invalid key for CA
  cert, must be ecdsa" and no signer.
\<close>

theorem New_unrecognized_curve:
  assumes "Type conf = pki_Type" and "ID conf \<noteq> []" and "PrivateKey conf \<noteq> []"
  shows "(GetKeysAndRand env conf = Inr (priv, ECDSAPublicKey name) \<and>
      name \<noteq> ''P-256'' \<and> name \<noteq> ''P-384'' \<and> name \<noteq> ''P-521'' \<longrightarrow>
        (\<exists>s conf'. New_issuer env conf = Returned (Inr (s, conf')) \<and> Mode s = [] \<and>
           getModeFromCurve s = Returned [] \<and>
           New env conf =
             (case New_endEntity env s conf' of
                Inl err \<Rightarrow> Returned (Inl err)
              | Inr s1 \<Rightarrow> Returned (New_x5u env s1)))) \<and>
     (GetKeysAndRand env conf = Inr (priv, OtherPublicKey) \<longrightarrow>
        New env conf = Returned (Inl (ErrorNew
          ''contentsignaturepki: invalid key for CA cert, must be ecdsa'')))"
proof (intro conjI impI)
  assume a: "GetKeysAndRand env conf = Inr (priv, ECDSAPublicKey name) \<and>
      name \<noteq> ''P-256'' \<and> name \<noteq> ''P-384'' \<and> name \<noteq> ''P-521''"
  then have k: "GetKeysAndRand env conf = Inr (priv, ECDSAPublicKey name)"
    by simp
  obtain s conf' where i: "New_issuer env conf = Returned (Inr (s, conf'))"
    and p: "issuerPub s = Some (ECDSAPublicKey name)" and m: "Mode s = []"
    using New_issuer_ecdsa [OF assms k] a by auto
  have g: "getModeFromCurve s = Returned []"
    using a by (simp add: getModeFromCurve_def p)
  have n: "New env conf =
       (case New_endEntity env s conf' of
          Inl err \<Rightarrow> Returned (Inl err)
        | Inr s1 \<Rightarrow> Returned (New_x5u env s1))"
    by (simp add: New_def i)
  show "\<exists>s conf'. New_issuer env conf = Returned (Inr (s, conf')) \<and> Mode s = [] \<and>
           getModeFromCurve s = Returned [] \<and>
           New env conf =
             (case New_endEntity env s conf' of
                Inl err \<Rightarrow> Returned (Inl err)
              | Inr s1 \<Rightarrow> Returned (New_x5u env s1))"
    using i m g n by blast
next
  assume "GetKeysAndRand env conf = Inr (priv, OtherPublicKey)"
  then have "New_issuer env conf = Returned (Inl (ErrorNew
          ''contentsignaturepki: invalid key for CA cert, must be ecdsa''))"
    using assms by (simp add: New_issuer_def Let_def)
  then show "New env conf = Returned (Inl (ErrorNew
          ''contentsignaturepki: invalid key for CA cert, must be ecdsa''))"
    by (simp add: New_def)
qed

theorem New_unrecognized_curve_witness:
  "Type example_conf = pki_Type \<and> ID example_conf \<noteq> [] \<and> PrivateKey example_conf \<noteq> [] \<and>
   GetKeysAndRand (example_environment ''P-224'' (\<lambda>u. None)) example_conf =
     Inr (''issuerkey'', ECDSAPublicKey ''P-224'') \<and>
   (\<exists>s conf'. New_issuer (example_environment ''P-224'' (\<lambda>u. None)) example_conf =
       Returned (Inr (s, conf')) \<and> Mode s = [] \<and> getModeFromCurve s = Returned [] \<and>
     New (example_environment ''P-224'' (\<lambda>u. None)) example_conf =
       (case New_endEntity (example_environment ''P-224'' (\<lambda>u. None)) s conf' of
          Inl err \<Rightarrow> Returned (Inl err)
        | Inr s1 \<Rightarrow> Returned (New_x5u (example_environment ''P-224'' (\<lambda>u. None)) s1))) \<and>
   GetKeysAndRand ((example_environment ''P-224'' (\<lambda>u. None))
       \<lparr>GetKeysAndRand := \<lambda>conf. Inr (''issuerkey'', OtherPublicKey)\<rparr>) example_conf =
     Inr (''issuerkey'', OtherPublicKey) \<and>
   New ((example_environment ''P-224'' (\<lambda>u. None))
       \<lparr>GetKeysAndRand := \<lambda>conf. Inr (''issuerkey'', OtherPublicKey)\<rparr>) example_conf =
     Returned (Inl (ErrorNew ''contentsignaturepki: invalid key for CA cert, must be ecdsa''))"
proof -
  have h: "Type example_conf = pki_Type" "ID example_conf \<noteq> []" "PrivateKey example_conf \<noteq> []"
    by (simp_all add: example_conf_def)
  have k1: "GetKeysAndRand (example_environment ''P-224'' (\<lambda>u. None)) example_conf =
       Inr (''issuerkey'', ECDSAPublicKey ''P-224'')"
    by (simp add: example_environment_def)
  have c: "''P-224'' \<noteq> ''P-256'' \<and> ''P-224'' \<noteq> ''P-384'' \<and> ''P-224'' \<noteq> ''P-521''"
    by simp
  have k2: "GetKeysAndRand ((example_environment ''P-224'' (\<lambda>u. None))
       \<lparr>GetKeysAndRand := \<lambda>conf. Inr (''issuerkey'', OtherPublicKey)\<rparr>) example_conf =
     Inr (''issuerkey'', OtherPublicKey)"
    by simp
  show ?thesis
    using h k1 c k2
      New_unrecognized_curve [OF h, where env = "example_environment ''P-224'' (\<lambda>u. None)"
        and priv = "''issuerkey''" and name = "''P-224''"]
      New_unrecognized_curve [OF h, where env = "(example_environment ''P-224'' (\<lambda>u. None))
          \<lparr>GetKeysAndRand := \<lambda>conf. Inr (''issuerkey'', OtherPublicKey)\<rparr>"
        and priv = "''issuerkey''"]
    by blast
qed

text \<open>
  Claim C8. When construction has reached the verification of the X5U with signer \<open>s\<close>
  and that verification fails: if the error's message starts with "failed to retrieve
  x5u", a new chain is made and uploaded and the new X5U is verified, and \<open>New\<close>
  returns a signer only when both succeed (the signer then carries the new X5U);
  otherwise \<open>New\<close> returns the error "failed to verify x5u" and no signer.
\<close>

theorem New_x5u_repair:
  assumes "New_issuer env conf = Returned (Inr (s0, conf'))"
    and "New_endEntity env s0 conf' = Inr s"
    and "verifyX5U env (X5U s) = Some err"
  shows "(prefix ''failed to retrieve x5u'' (Error err) \<longrightarrow>
       New env conf =
         (case uploadChain env s of
            Inl e \<Rightarrow> Returned (Inl (Wrap e
              ''contentsignaturepki: failed to make chain and x5u for end-entity''))
          | Inr (fullChain, newX5U) \<Rightarrow>
             (case verifyX5U env newX5U of
                Some e \<Rightarrow> Returned (Inl (Wrap e
                  ''contentsignaturepki: failed to make chain and x5u for end-entity''))
              | None \<Rightarrow> Returned (Inr (s\<lparr>X5U := newX5U, chain := fullChain\<rparr>))))) \<and>
     (\<not> prefix ''failed to retrieve x5u'' (Error err) \<longrightarrow>
       New env conf = Returned (Inl (Wrap err ''contentsignaturepki: failed to verify x5u'')))"
  using assms
  by (simp add: New_def New_x5u_def makeChainAndX5U_def split: sum.splits option.splits prod.splits)

theorem New_x5u_repair_witness:
  "New_issuer (example_environment ''P-256''
       (\<lambda>u. if u = ''https://example.net/chain.pem''
            then Some (ErrorNew ''failed to retrieve x5u: status 404'') else None))
     example_conf =
     Returned (Inr (example_signer P256ECDSA, example_conf\<lparr>Validity := 2592000000000000\<rparr>)) \<and>
   prefix ''failed to retrieve x5u'' (Error (ErrorNew ''failed to retrieve x5u: status 404'')) \<and>
   New (example_environment ''P-256''
       (\<lambda>u. if u = ''https://example.net/chain.pem''
            then Some (ErrorNew ''failed to retrieve x5u: status 404'') else None))
     example_conf =
     Returned (Inr ((example_signer P256ECDSA)\<lparr>X5U := ''https://example.net/chain.pem.new'',
       chain := ''-----BEGIN CERTIFICATE-----''\<rparr>)) \<and>
   \<not> prefix ''failed to retrieve x5u'' (Error (ErrorNew ''x509: certificate has expired'')) \<and>
   New (example_environment ''P-256'' (\<lambda>u. Some (ErrorNew ''x509: certificate has expired'')))
     example_conf =
     Returned (Inl (Wrap (ErrorNew ''x509: certificate has expired'')
       ''contentsignaturepki: failed to verify x5u''))"
proof -
  let ?v1 = "\<lambda>u. if u = ''https://example.net/chain.pem''
            then Some (ErrorNew ''failed to retrieve x5u: status 404'') else None"
  let ?v2 = "\<lambda>u::string. Some (ErrorNew ''x509: certificate has expired'')"
  have i: "New_issuer (example_environment ''P-256'' v) example_conf =
     Returned (Inr (example_signer P256ECDSA, example_conf\<lparr>Validity := 2592000000000000\<rparr>))" for v
    by (simp add: New_issuer_def getModeFromCurve_def example_environment_def
        example_conf_def example_signer_def Let_def)
  have e: "New_endEntity (example_environment ''P-256'' v) (example_signer P256ECDSA)
      (example_conf\<lparr>Validity := 2592000000000000\<rparr>) = Inr (example_signer P256ECDSA)" for v
    by (simp add: New_endEntity_def example_environment_def)
  have v1: "verifyX5U (example_environment ''P-256'' ?v1) (X5U (example_signer P256ECDSA)) =
      Some (ErrorNew ''failed to retrieve x5u: status 404'')"
    by (simp add: example_environment_def example_signer_def)
  have v2: "verifyX5U (example_environment ''P-256'' ?v2) (X5U (example_signer P256ECDSA)) =
      Some (ErrorNew ''x509: certificate has expired'')"
    by (simp add: example_environment_def)
  note r1 = New_x5u_repair [OF i e v1]
  note r2 = New_x5u_repair [OF i e v2]
  have p1: "prefix ''failed to retrieve x5u'' (Error (ErrorNew ''failed to retrieve x5u: status 404''))"
    by simp
  have p2: "\<not> prefix ''failed to retrieve x5u'' (Error (ErrorNew ''x509: certificate has expired''))"
    by simp
  have u: "uploadChain (example_environment ''P-256'' ?v1) (example_signer P256ECDSA) =
      Inr (''-----BEGIN CERTIFICATE-----'', ''https://example.net/chain.pem.new'')"
    by (simp add: example_environment_def example_signer_def)
  have w: "verifyX5U (example_environment ''P-256'' ?v1) ''https://example.net/chain.pem.new'' = None"
    by (simp add: example_environment_def)
  from r1 p1 have n1: "New (example_environment ''P-256'' ?v1) example_conf =
     Returned (Inr ((example_signer P256ECDSA)\<lparr>X5U := ''https://example.net/chain.pem.new'',
       chain := ''-----BEGIN CERTIFICATE-----''\<rparr>))"
    by (simp add: u w)
  from r2 p2 have n2: "New (example_environment ''P-256'' ?v2) example_conf =
     Returned (Inl (Wrap (ErrorNew ''x509: certificate has expired'')
       ''contentsignaturepki: failed to verify x5u''))"
    by blast
  show ?thesis
    using i [of ?v1] p1 n1 p2 n2 by blast
qed

section \<open>Properties of the MAR options\<close>

text \<open>
  Claim C9. \<open>GetOptions(nil)\<close> returns the zero \<open>Options\<close> and no error, given that
  \<open>json.Marshal(nil)\<close> is \<open>null\<close> and that \<open>json.Unmarshal\<close> of \<open>null\<close> leaves
  the record as it is and returns nil, as \<open>encoding/json\<close> documents; and for a value
  that cannot be re-encoded, because \<open>json.Marshal\<close> or \<open>json.Unmarshal\<close> into
  \<open>Options\<close> returns an error, \<open>GetOptions\<close> returns that error.
\<close>

theorem GetOptions_nil_and_errors:
  "(Marshal J GoNil = Inr ''null'' \<and>
    Unmarshal J ''null'' \<lparr>SigAlg = 0\<rparr> = (None, \<lparr>SigAlg = 0\<rparr>) \<longrightarrow>
      GetOptions J GoNil = (\<lparr>SigAlg = 0\<rparr>, None)) \<and>
   (Marshal J input = Inl err \<longrightarrow> GetOptions J input = (\<lparr>SigAlg = 0\<rparr>, Some err)) \<and>
   (Marshal J input = Inr buf \<and> Unmarshal J buf \<lparr>SigAlg = 0\<rparr> = (Some err, opts) \<longrightarrow>
      GetOptions J input = (opts, Some err))"
  by (simp add: GetOptions_def)

theorem GetOptions_nil_and_errors_witness:
  "GetOptions example_json GoNil = (\<lparr>SigAlg = 0\<rparr>, None) \<and>
   GetOptions example_json GoChan =
     (\<lparr>SigAlg = 0\<rparr>, Some (ErrorNew ''json: unsupported type: chan int'')) \<and>
   GetOptions example_json (GoString ''sha384'') =
     (\<lparr>SigAlg = 0\<rparr>, Some (ErrorNew
        ''json: cannot unmarshal string into Go value of type mar.Options''))"
proof -
  have n: "Marshal example_json GoNil = Inr ''null'' \<and>
      Unmarshal example_json ''null'' \<lparr>SigAlg = 0\<rparr> = (None, \<lparr>SigAlg = 0\<rparr>)"
    by (simp add: example_json_def)
  have c: "Marshal example_json GoChan = Inl (ErrorNew ''json: unsupported type: chan int'')"
    by (simp add: example_json_def)
  have g: "Marshal example_json (GoString ''sha384'') = Inr (quoted ''sha384'') \<and>
      Unmarshal example_json (quoted ''sha384'') \<lparr>SigAlg = 0\<rparr> =
        (Some (ErrorNew ''json: cannot unmarshal string into Go value of type mar.Options''),
         \<lparr>SigAlg = 0\<rparr>)"
    by (simp add: example_json_def quoted_def)
  show ?thesis
    using n c g
      GetOptions_nil_and_errors [where J = example_json and input = GoChan
        and err = "ErrorNew ''json: unsupported type: chan int''"]
      GetOptions_nil_and_errors [where J = example_json and input = "GoString ''sha384''"
        and buf = "quoted ''sha384''" and opts = "\<lparr>SigAlg = 0\<rparr>"
        and err = "ErrorNew ''json: cannot unmarshal string into Go value of type mar.Options''"]
    by blast
qed

end
